theory Spec2Isabelle
  imports Main
begin

section \<open>Shared vocabulary\<close>

text \<open>
  The header \<^verbatim>\<open>mkmock.hpp\<close> exists in two versions: \<^verbatim>\<open>src/mkmock.hpp\<close>, which keeps a
  \<^verbatim>\<open>std::recursive_mutex\<close> locked while the code snippet runs, and
  \<^verbatim>\<open>src/unnamed/part_000\<close>, which locks a \<^verbatim>\<open>std::mutex\<close> only around the two
  updates of the hook. Both are macro libraries; a macro becomes a function on an explicit
  program state.

  A thread is a number, a tag and a variable are named by strings. The mocked \<^verbatim>\<open>Type\<close>
  is a scalar (an integer or a pointer): the value-initialisation \<^verbatim>\<open>Type{}\<close> and
  \<^verbatim>\<open>nullptr\<close> are both the zero of the type, hence the sort \<open>zero\<close> and the constant
  \<open>0\<close> below.
\<close>

type_synonym thread = nat
type_synonym tag = string
type_synonym vname = string

text \<open>
  What a snippet can throw: an object derived from \<^verbatim>\<open>std::exception\<close>, which
  \<^verbatim>\<open>catch (const std::exception &)\<close> catches, or anything else (\<^verbatim>\<open>throw 42\<close>), which
  it does not.
\<close>

datatype exc = StdException nat | Foreign nat

text \<open>
  The macro argument \<^verbatim>\<open>MockedValue\<close> is an expression of the mocked type, pasted into the
  macro and evaluated there: it yields a value or it throws.
\<close>

datatype 'a expr = Yields 'a | Throws exc

text \<open>
  How a piece of code ends: it returns, it throws, the thread waits for a mutex that
  another thread holds, or the behaviour is undefined (unlocking a mutex the thread does
  not own).
\<close>

datatype outcome = Returned | Thrown exc | Blocked | Undefined

text \<open>
  The program state around the hooks: the variables of the code under test, the calls made
  to deleters so far (deleter name and argument, oldest first), and one singleton per tag.
\<close>

record ('a, 'h) state =
  vars :: "vname \<Rightarrow> 'a"
  deleted :: "(string \<times> 'a) list"
  hooks :: "tag \<Rightarrow> 'h"

section \<open>\<^verbatim>\<open>src/mkmock.hpp\<close>: the lock is held across the snippet\<close>

text \<open>
  \<^verbatim>\<open>std::recursive_mutex\<close>: free, or held by a thread that has locked it \<open>n + 1\<close> times.
  \<open>rlock\<close> is \<open>None\<close> when the caller has to wait; \<open>runlock\<close> is \<open>None\<close> when the
  caller does not own the mutex (undefined behaviour in C++).
\<close>

datatype recursive_mutex = Free | Held thread nat

fun rlock :: "thread \<Rightarrow> recursive_mutex \<Rightarrow> recursive_mutex option" where
  "rlock t Free = Some (Held t 0)"
| "rlock t (Held u n) = (if u = t then Some (Held t (Suc n)) else None)"

fun runlock :: "thread \<Rightarrow> recursive_mutex \<Rightarrow> recursive_mutex option" where
  "runlock t Free = None"
| "runlock t (Held u n) =
     (if u = t then Some (case n of 0 \<Rightarrow> Free | Suc k \<Rightarrow> Held t k) else None)"

text \<open>The class \<^verbatim>\<open>mkmock_##Tag\<close> of \<^verbatim>\<open>MKMOCK_DEFINE_HOOK\<close> and its initial singleton.\<close>

record 'a mkmock =
  enabled :: bool
  val :: 'a
  saved_value :: 'a
  saved_exc :: "exc option"
  mutex :: recursive_mutex

definition singleton :: "'a::zero mkmock" where
  "singleton = \<lparr>enabled = False, val = 0, saved_value = 0, saved_exc = None, mutex = Free\<rparr>"

type_synonym 'a bstate = "('a, 'a mkmock) state"

definition initial :: "'a::zero bstate" where
  "initial = \<lparr>vars = (\<lambda>x. 0), deleted = [], hooks = (\<lambda>T. singleton)\<rparr>"

text \<open>
  The end of a \<^verbatim>\<open>std::unique_lock\<close> scope and the \<^verbatim>\<open>inst->mutex.unlock()\<close> of the
  teardown: thread \<open>t\<close> unlocks the mutex of tag \<open>T\<close>.
\<close>

definition unlock_hook :: "thread \<Rightarrow> tag \<Rightarrow> 'a bstate \<Rightarrow> 'a bstate option" where
  "unlock_hook t T st =
     (case runlock t (mutex (hooks st T)) of
        None \<Rightarrow> None
      | Some m \<Rightarrow> Some (st\<lparr>hooks := (hooks st)(T := (hooks st T)\<lparr>mutex := m\<rparr>)\<rparr>))"

text \<open>
  \<^verbatim>\<open>MKMOCK_HOOK(Tag, Variable)\<close>. The first argument says whether
  \<^verbatim>\<open>MKMOCK_HOOK_ENABLE\<close> is defined; without it the macro expands to nothing.
\<close>

definition MKMOCK_HOOK ::
  "bool \<Rightarrow> thread \<Rightarrow> tag \<Rightarrow> vname \<Rightarrow> 'a bstate \<Rightarrow> outcome \<times> 'a bstate" where
  "MKMOCK_HOOK hook_enable t T x st =
     (if \<not> hook_enable then (Returned, st)
      else
        let inst = hooks st T in
        case rlock t (mutex inst) of
          None \<Rightarrow> (Blocked, st)
        | Some m \<Rightarrow>
            let st1 = st\<lparr>hooks := (hooks st)(T := inst\<lparr>mutex := m\<rparr>)\<rparr>;
                st2 = (if enabled inst then st1\<lparr>vars := (vars st1)(x := val inst)\<rparr> else st1)
            in (case unlock_hook t T st2 of
                  None \<Rightarrow> (Undefined, st2)
                | Some st3 \<Rightarrow> (Returned, st3)))"

text \<open>
  \<^verbatim>\<open>MKMOCK_HOOK_ALLOC(Tag, Variable, Deleter)\<close>: a call of the deleter \<open>d\<close> on the
  variable is appended to \<open>deleted\<close>.
\<close>

definition MKMOCK_HOOK_ALLOC ::
  "bool \<Rightarrow> thread \<Rightarrow> tag \<Rightarrow> vname \<Rightarrow> string \<Rightarrow> 'a::zero bstate \<Rightarrow> outcome \<times> 'a bstate" where
  "MKMOCK_HOOK_ALLOC hook_enable t T x d st =
     (if \<not> hook_enable then (Returned, st)
      else
        let inst = hooks st T in
        case rlock t (mutex inst) of
          None \<Rightarrow> (Blocked, st)
        | Some m \<Rightarrow>
            let st1 = st\<lparr>hooks := (hooks st)(T := inst\<lparr>mutex := m\<rparr>)\<rparr>;
                st2 = (if enabled inst
                       then let st' = (if vars st1 x \<noteq> 0
                                       then st1\<lparr>deleted := deleted st1 @ [(d, vars st1 x)]\<rparr>
                                       else st1)
                            in st'\<lparr>vars := (vars st')(x := val inst)\<rparr>
                       else st1)
            in (case unlock_hook t T st2 of
                  None \<Rightarrow> (Undefined, st2)
                | Some st3 \<Rightarrow> (Returned, st3)))"

text \<open>
  \<^verbatim>\<open>MKMOCK_WITH_ENABLED_HOOK(Tag, MockedValue, CodeSnippet)\<close>, in the three parts of the
  macro. \<open>activate\<close> is the first block: lock, clear the saved exception, save the value,
  evaluate \<^verbatim>\<open>MockedValue\<close> and store it, enable. The thread may have to wait for the mutex
  (\<open>Blocked\<close>, nothing changed). The block is outside the \<^verbatim>\<open>try\<close>: when \<^verbatim>\<open>MockedValue\<close>
  throws, the exception leaves the macro with the mutex locked and the value saved, and the
  hook neither set nor enabled.
\<close>

definition activate :: "thread \<Rightarrow> 'a expr \<Rightarrow> 'a mkmock \<Rightarrow> outcome \<times> 'a mkmock" where
  "activate t MockedValue inst =
     (case rlock t (mutex inst) of
        None \<Rightarrow> (Blocked, inst)
      | Some m \<Rightarrow>
          let i1 = inst\<lparr>mutex := m\<rparr>;
              i2 = i1\<lparr>saved_exc := None\<rparr>;
              i3 = i2\<lparr>saved_value := val i2\<rparr>
          in (case MockedValue of
                Throws e \<Rightarrow> (Thrown e, i3)
              | Yields v \<Rightarrow> let i4 = i3\<lparr>val := v\<rparr> in (Returned, i4\<lparr>enabled := True\<rparr>)))"

text \<open>
  The last block: disable, restore the value from \<open>saved_value\<close>, clear \<open>saved_value\<close>,
  move the saved exception out of the singleton, unlock, rethrow.
\<close>

definition teardown :: "thread \<Rightarrow> tag \<Rightarrow> 'a::zero bstate \<Rightarrow> outcome \<times> 'a bstate" where
  "teardown t T st =
     (let inst = hooks st T;
          i1 = inst\<lparr>enabled := False\<rparr>;
          i2 = i1\<lparr>val := saved_value i1\<rparr>;
          i3 = i2\<lparr>saved_value := 0\<rparr>;
          saved = saved_exc i3;
          i4 = i3\<lparr>saved_exc := None\<rparr>;
          st1 = st\<lparr>hooks := (hooks st)(T := i4)\<rparr>
      in case unlock_hook t T st1 of
           None \<Rightarrow> (Undefined, st1)
         | Some st2 \<Rightarrow> (case saved of None \<Rightarrow> (Returned, st2) | Some e \<Rightarrow> (Thrown e, st2)))"

text \<open>
  The whole macro. The snippet is any state transformer with an outcome. When the first
  block does not complete, the macro ends there. An exception of the snippet derived from
  \<^verbatim>\<open>std::exception\<close> is stored in \<open>saved_exc\<close> and the teardown runs; any other way of not
  returning leaves the macro at once.
\<close>

definition MKMOCK_WITH_ENABLED_HOOK ::
  "thread \<Rightarrow> tag \<Rightarrow> 'a::zero expr \<Rightarrow> ('a bstate \<Rightarrow> outcome \<times> 'a bstate) \<Rightarrow> 'a bstate
     \<Rightarrow> outcome \<times> 'a bstate" where
  "MKMOCK_WITH_ENABLED_HOOK t T MockedValue snippet st =
     (case activate t MockedValue (hooks st T) of
        (Returned, inst) \<Rightarrow>
          (case snippet (st\<lparr>hooks := (hooks st)(T := inst)\<rparr>) of
             (Returned, st1) \<Rightarrow> teardown t T st1
           | (Thrown (StdException n), st1) \<Rightarrow>
               teardown t T
                 (st1\<lparr>hooks := (hooks st1)(T := (hooks st1 T)\<lparr>saved_exc := Some (StdException n)\<rparr>)\<rparr>)
           | (Thrown (Foreign n), st1) \<Rightarrow> (Thrown (Foreign n), st1)
           | (Blocked, st1) \<Rightarrow> (Blocked, st1)
           | (Undefined, st1) \<Rightarrow> (Undefined, st1))
      | (Thrown e, inst) \<Rightarrow> (Thrown e, st\<lparr>hooks := (hooks st)(T := inst)\<rparr>)
      | (Blocked, inst) \<Rightarrow> (Blocked, st)
      | (Undefined, inst) \<Rightarrow> (Undefined, st\<lparr>hooks := (hooks st)(T := inst)\<rparr>))"

lemma MKMOCK_WITH_ENABLED_HOOK_cong [fundef_cong]:
  assumes "t = t'" "T = T'" "v = v'" "st = st'"
    and "\<And>s. f s = g s"
  shows "MKMOCK_WITH_ENABLED_HOOK t T v f st = MKMOCK_WITH_ENABLED_HOOK t' T' v' g st'"
proof -
  from assms(5) have "f = g" by (rule ext)
  with assms(1-4) show ?thesis by simp
qed

text \<open>
  Code that uses the hooks: the snippets of the tests and the code under test they call.
  \<open>Assign\<close> stands for the real computation that fills a variable
  (\<^verbatim>\<open>int rv = call_some_api();\<close>).
\<close>

datatype 'a stmt =
    Assign vname 'a
  | Hook tag vname
  | HookAlloc tag vname string
  | WithEnabledHook tag "'a expr" "'a stmt list"
  | Throw exc

fun exec :: "bool \<Rightarrow> thread \<Rightarrow> 'a::zero stmt \<Rightarrow> 'a bstate \<Rightarrow> outcome \<times> 'a bstate"
  and exec_block :: "bool \<Rightarrow> thread \<Rightarrow> 'a::zero stmt list \<Rightarrow> 'a bstate \<Rightarrow> outcome \<times> 'a bstate"
  where
  "exec en t (Assign x v) st = (Returned, st\<lparr>vars := (vars st)(x := v)\<rparr>)"
| "exec en t (Hook T x) st = MKMOCK_HOOK en t T x st"
| "exec en t (HookAlloc T x d) st = MKMOCK_HOOK_ALLOC en t T x d st"
| "exec en t (WithEnabledHook T v blk) st =
     MKMOCK_WITH_ENABLED_HOOK t T v (exec_block en t blk) st"
| "exec en t (Throw e) st = (Thrown e, st)"
| "exec_block en t [] st = (Returned, st)"
| "exec_block en t (c # cs) st =
     (case exec en t c st of
        (Returned, st1) \<Rightarrow> exec_block en t cs st1
      | (out, st1) \<Rightarrow> (out, st1))"

text \<open>
  A test program: statements of several threads, one after the other. A statement of the
  program is not interleaved with the others, an exception that leaves it is caught by
  the test, and a thread that waits for a mutex stays where it stopped.
\<close>

fun run :: "bool \<Rightarrow> (thread \<times> 'a::zero stmt) list \<Rightarrow> 'a bstate \<Rightarrow> 'a bstate" where
  "run en [] st = st"
| "run en ((t, c) # p) st = run en p (snd (exec en t c st))"

section \<open>\<^verbatim>\<open>src/unnamed/part_000\<close>: the lock is released before the snippet runs\<close>

text \<open>
  The names of this header are those of the other one; here they carry a prime.
  \<^verbatim>\<open>std::mutex\<close>: \<open>mlock\<close> is \<open>None\<close> when the caller has to wait (for ever, if it is
  the owner itself); \<open>munlock\<close> is \<open>None\<close> when the caller does not own the mutex.
\<close>

datatype std_mutex = Unlocked | Locked thread

fun mlock :: "thread \<Rightarrow> std_mutex \<Rightarrow> std_mutex option" where
  "mlock t Unlocked = Some (Locked t)"
| "mlock t (Locked u) = None"

fun munlock :: "thread \<Rightarrow> std_mutex \<Rightarrow> std_mutex option" where
  "munlock t Unlocked = None"
| "munlock t (Locked u) = (if u = t then Some Unlocked else None)"

record 'a mkmock' =
  enabled' :: bool
  val' :: 'a
  mutex' :: std_mutex

definition singleton' :: "'a::zero mkmock'" where
  "singleton' = \<lparr>enabled' = False, val' = 0, mutex' = Unlocked\<rparr>"

type_synonym 'a fstate = "('a, 'a mkmock') state"

definition initial' :: "'a::zero fstate" where
  "initial' = \<lparr>vars = (\<lambda>x. 0), deleted = [], hooks = (\<lambda>T. singleton')\<rparr>"

definition unlock_hook' :: "thread \<Rightarrow> tag \<Rightarrow> 'a fstate \<Rightarrow> 'a fstate option" where
  "unlock_hook' t T st =
     (case munlock t (mutex' (hooks st T)) of
        None \<Rightarrow> None
      | Some m \<Rightarrow> Some (st\<lparr>hooks := (hooks st)(T := (hooks st T)\<lparr>mutex' := m\<rparr>)\<rparr>))"

definition MKMOCK_HOOK' ::
  "bool \<Rightarrow> thread \<Rightarrow> tag \<Rightarrow> vname \<Rightarrow> 'a fstate \<Rightarrow> outcome \<times> 'a fstate" where
  "MKMOCK_HOOK' hook_enable t T x st =
     (if \<not> hook_enable then (Returned, st)
      else
        let inst = hooks st T in
        case mlock t (mutex' inst) of
          None \<Rightarrow> (Blocked, st)
        | Some m \<Rightarrow>
            let st1 = st\<lparr>hooks := (hooks st)(T := inst\<lparr>mutex' := m\<rparr>)\<rparr>;
                st2 = (if enabled' inst then st1\<lparr>vars := (vars st1)(x := val' inst)\<rparr> else st1)
            in (case unlock_hook' t T st2 of
                  None \<Rightarrow> (Undefined, st2)
                | Some st3 \<Rightarrow> (Returned, st3)))"

text \<open>
  The second locked scope of \<^verbatim>\<open>MKMOCK_WITH_ENABLED_HOOK\<close> and the rethrow after it:
  disable, put the local \<^verbatim>\<open>SavedValue\<close> back, then rethrow the local \<^verbatim>\<open>saved_exc\<close>.
\<close>

definition restore' ::
  "thread \<Rightarrow> tag \<Rightarrow> 'a \<Rightarrow> exc option \<Rightarrow> 'a fstate \<Rightarrow> outcome \<times> 'a fstate" where
  "restore' t T SavedValue saved st =
     (let inst = hooks st T in
      case mlock t (mutex' inst) of
        None \<Rightarrow> (Blocked, st)
      | Some m \<Rightarrow>
          let i1 = inst\<lparr>mutex' := m\<rparr>;
              i2 = i1\<lparr>enabled' := False\<rparr>;
              i3 = i2\<lparr>val' := SavedValue\<rparr>;
              st1 = st\<lparr>hooks := (hooks st)(T := i3)\<rparr>
          in (case unlock_hook' t T st1 of
                None \<Rightarrow> (Undefined, st1)
              | Some st2 \<Rightarrow>
                  (case saved of None \<Rightarrow> (Returned, st2) | Some e \<Rightarrow> (Thrown e, st2))))"

text \<open>
  The whole macro: the first locked scope saves the value in the local \<^verbatim>\<open>SavedValue\<close>,
  evaluates \<^verbatim>\<open>MockedValue\<close>, stores it and enables the hook; the snippet runs with the
  mutex unlocked. When \<^verbatim>\<open>MockedValue\<close> throws, the \<^verbatim>\<open>std::unique_lock\<close> unlocks the mutex
  and the exception leaves the macro.
\<close>

definition MKMOCK_WITH_ENABLED_HOOK' ::
  "thread \<Rightarrow> tag \<Rightarrow> 'a::zero expr \<Rightarrow> ('a fstate \<Rightarrow> outcome \<times> 'a fstate) \<Rightarrow> 'a fstate
     \<Rightarrow> outcome \<times> 'a fstate" where
  "MKMOCK_WITH_ENABLED_HOOK' t T MockedValue snippet st =
     (let inst = hooks st T in
      case mlock t (mutex' inst) of
        None \<Rightarrow> (Blocked, st)
      | Some m \<Rightarrow>
          let i1 = inst\<lparr>mutex' := m\<rparr>;
              SavedValue = val' i1
          in (case MockedValue of
                Throws e \<Rightarrow>
                  (let st1 = st\<lparr>hooks := (hooks st)(T := i1)\<rparr>
                   in (case unlock_hook' t T st1 of
                         None \<Rightarrow> (Undefined, st1)
                       | Some st2 \<Rightarrow> (Thrown e, st2)))
              | Yields v \<Rightarrow>
                  (let i2 = i1\<lparr>val' := v\<rparr>;
                       i3 = i2\<lparr>enabled' := True\<rparr>;
                       st1 = st\<lparr>hooks := (hooks st)(T := i3)\<rparr>
                   in (case unlock_hook' t T st1 of
                         None \<Rightarrow> (Undefined, st1)
                       | Some st2 \<Rightarrow>
                           (case snippet st2 of
                              (Returned, st3) \<Rightarrow> restore' t T SavedValue None st3
                            | (Thrown (StdException n), st3) \<Rightarrow>
                                restore' t T SavedValue (Some (StdException n)) st3
                            | (Thrown (Foreign n), st3) \<Rightarrow> (Thrown (Foreign n), st3)
                            | (Blocked, st3) \<Rightarrow> (Blocked, st3)
                            | (Undefined, st3) \<Rightarrow> (Undefined, st3))))))"

lemma MKMOCK_WITH_ENABLED_HOOK'_cong [fundef_cong]:
  assumes "t = t'" "T = T'" "v = v'" "st = st'"
    and "\<And>s. f s = g s"
  shows "MKMOCK_WITH_ENABLED_HOOK' t T v f st = MKMOCK_WITH_ENABLED_HOOK' t' T' v' g st'"
proof -
  from assms(5) have "f = g" by (rule ext)
  with assms(1-4) show ?thesis by simp
qed

text \<open>
  Code that compiles against this header: it has no \<^verbatim>\<open>MKMOCK_HOOK_ALLOC\<close>. \<open>embed\<close>
  reads such code as code for \<^verbatim>\<open>src/mkmock.hpp\<close>.
\<close>

datatype 'a stmt' =
    Assign' vname 'a
  | Hook' tag vname
  | WithEnabledHook' tag "'a expr" "'a stmt' list"
  | Throw' exc

fun exec' :: "bool \<Rightarrow> thread \<Rightarrow> 'a::zero stmt' \<Rightarrow> 'a fstate \<Rightarrow> outcome \<times> 'a fstate"
  and exec_block' :: "bool \<Rightarrow> thread \<Rightarrow> 'a::zero stmt' list \<Rightarrow> 'a fstate \<Rightarrow> outcome \<times> 'a fstate"
  where
  "exec' en t (Assign' x v) st = (Returned, st\<lparr>vars := (vars st)(x := v)\<rparr>)"
| "exec' en t (Hook' T x) st = MKMOCK_HOOK' en t T x st"
| "exec' en t (WithEnabledHook' T v blk) st =
     MKMOCK_WITH_ENABLED_HOOK' t T v (exec_block' en t blk) st"
| "exec' en t (Throw' e) st = (Thrown e, st)"
| "exec_block' en t [] st = (Returned, st)"
| "exec_block' en t (c # cs) st =
     (case exec' en t c st of
        (Returned, st1) \<Rightarrow> exec_block' en t cs st1
      | (out, st1) \<Rightarrow> (out, st1))"

fun embed :: "'a stmt' \<Rightarrow> 'a stmt" where
  "embed (Assign' x v) = Assign x v"
| "embed (Hook' T x) = Hook T x"
| "embed (WithEnabledHook' T v blk) = WithEnabledHook T v (map embed blk)"
| "embed (Throw' e) = Throw e"

section \<open>Vocabulary of the properties\<close>


text \<open>\<open>holds t n m\<close>: thread \<open>t\<close> owns the mutex \<open>m\<close> and has locked it more than \<open>n\<close> times.\<close>

fun holds :: "thread \<Rightarrow> nat \<Rightarrow> recursive_mutex \<Rightarrow> bool" where
  "holds t n Free = False"
| "holds t n (Held u k) = (u = t \<and> n \<le> k)"

text \<open>
  \<open>overrides T c\<close>: the statement \<open>c\<close> contains a \<^verbatim>\<open>MKMOCK_WITH_ENABLED_HOOK\<close> of tag
  \<open>T\<close>, at any depth.
\<close>

fun overrides :: "tag \<Rightarrow> 'a stmt \<Rightarrow> bool"
  and overrides_block :: "tag \<Rightarrow> 'a stmt list \<Rightarrow> bool" where
  "overrides T (Assign x v) = False"
| "overrides T (Hook T' x) = False"
| "overrides T (HookAlloc T' x d) = False"
| "overrides T (WithEnabledHook T' mv blk) = (T' = T \<or> overrides_block T blk)"
| "overrides T (Throw e) = False"
| "overrides_block T [] = False"
| "overrides_block T (c # cs) = (overrides T c \<or> overrides_block T cs)"

text \<open>
  \<open>nests c\<close>: somewhere in \<open>c\<close> a \<^verbatim>\<open>MKMOCK_WITH_ENABLED_HOOK\<close> of a tag runs inside the
  snippet of another one of the same tag, so that two invocations for one tag are in
  progress at once.
\<close>

fun nests :: "'a stmt \<Rightarrow> bool"
  and nests_block :: "'a stmt list \<Rightarrow> bool" where
  "nests (Assign x v) = False"
| "nests (Hook T x) = False"
| "nests (HookAlloc T x d) = False"
| "nests (WithEnabledHook T mv blk) = (overrides_block T blk \<or> nests_block blk)"
| "nests (Throw e) = False"
| "nests_block [] = False"
| "nests_block (c # cs) = (nests c \<or> nests_block cs)"



text \<open>
  Test programs over the tag \<^verbatim>\<open>retcode\<close> of type \<^verbatim>\<open>int\<close>. \<open>in_outer\<close> is the state in
  which the snippet of \<^verbatim>\<open>MKMOCK_WITH_ENABLED_HOOK(retcode, 1, ...)\<close> starts when thread 0
  calls the macro in the initial state; the next three nest the macro on the same tag. In
  \<open>throwing_argument\<close> an exception that is not a \<^verbatim>\<open>std::exception\<close> leaves the hook
  disabled with the value 1, and the argument of the next call throws.
\<close>

definition outer_inst :: "int mkmock" where
  "outer_inst = \<lparr>enabled = True, val = 1, saved_value = 0, saved_exc = None, mutex = Held 0 0\<rparr>"

definition in_outer :: "int bstate" where
  "in_outer = initial\<lparr>hooks := (hooks initial)(''retcode'' := outer_inst)\<rparr>"

definition nested_returning :: "int stmt" where
  "nested_returning =
     WithEnabledHook ''retcode'' (Yields 2) [WithEnabledHook ''retcode'' (Yields 3) []]"

definition nested_throwing :: "int stmt" where
  "nested_throwing =
     WithEnabledHook ''retcode'' (Yields 2)
       [WithEnabledHook ''retcode'' (Yields 3) [], Throw (StdException 7)]"

definition nested_escaping :: "int stmt'" where
  "nested_escaping =
     WithEnabledHook' ''retcode'' (Yields 1)
       [WithEnabledHook' ''retcode'' (Yields 2) [WithEnabledHook' ''retcode'' (Yields 3) []],
        Throw' (Foreign 42)]"


section \<open>Locks and hooks\<close>

text \<open>A thread that has just locked a mutex can unlock it, and the mutex is as before.\<close>

lemma rlock_runlock: "rlock t m = Some m' \<Longrightarrow> runlock t m' = Some m"
  by (cases m) (auto split: if_splits)

lemma mlock_munlock: "mlock t m = Some m' \<Longrightarrow> munlock t m' = Some m"
  by (cases m) auto

lemma MKMOCK_HOOK_locked:
  assumes "rlock t (mutex (hooks st T)) = Some m"
  shows "MKMOCK_HOOK True t T x st =
           (Returned,
            if enabled (hooks st T) then st\<lparr>vars := (vars st)(x := val (hooks st T))\<rparr> else st)"
  using assms rlock_runlock [OF assms]
  by (simp add: MKMOCK_HOOK_def unlock_hook_def Let_def)

lemma MKMOCK_HOOK_blocked:
  assumes "rlock t (mutex (hooks st T)) = None"
  shows "MKMOCK_HOOK True t T x st = (Blocked, st)"
  using assms by (simp add: MKMOCK_HOOK_def)

lemma MKMOCK_HOOK_ALLOC_locked:
  assumes "rlock t (mutex (hooks st T)) = Some m"
  shows "MKMOCK_HOOK_ALLOC True t T x d st =
           (Returned,
            if enabled (hooks st T)
            then st\<lparr>deleted := deleted st @ (if vars st x \<noteq> 0 then [(d, vars st x)] else []),
                    vars := (vars st)(x := val (hooks st T))\<rparr>
            else st)"
  using assms rlock_runlock [OF assms]
  by (simp add: MKMOCK_HOOK_ALLOC_def unlock_hook_def Let_def)

lemma MKMOCK_HOOK_ALLOC_blocked:
  assumes "rlock t (mutex (hooks st T)) = None"
  shows "MKMOCK_HOOK_ALLOC True t T x d st = (Blocked, st)"
  using assms by (simp add: MKMOCK_HOOK_ALLOC_def)

lemma MKMOCK_HOOK'_locked:
  assumes "mlock t (mutex' (hooks st T)) = Some m"
  shows "MKMOCK_HOOK' True t T x st =
           (Returned,
            if enabled' (hooks st T) then st\<lparr>vars := (vars st)(x := val' (hooks st T))\<rparr> else st)"
  using assms mlock_munlock [OF assms]
  by (simp add: MKMOCK_HOOK'_def unlock_hook'_def Let_def)

lemma MKMOCK_HOOK'_blocked:
  assumes "mlock t (mutex' (hooks st T)) = None"
  shows "MKMOCK_HOOK' True t T x st = (Blocked, st)"
  using assms by (simp add: MKMOCK_HOOK'_def)

lemma MKMOCK_HOOK_off: "MKMOCK_HOOK False t T x st = (Returned, st)"
  by (simp add: MKMOCK_HOOK_def)

lemma MKMOCK_HOOK_ALLOC_off: "MKMOCK_HOOK_ALLOC False t T x d st = (Returned, st)"
  by (simp add: MKMOCK_HOOK_ALLOC_def)

lemma MKMOCK_HOOK'_off: "MKMOCK_HOOK' False t T x st = (Returned, st)"
  by (simp add: MKMOCK_HOOK'_def)

lemma hooks_MKMOCK_HOOK: "hooks (snd (MKMOCK_HOOK en t T x st)) = hooks st"
proof (cases en)
  case False
  then show ?thesis by (simp add: MKMOCK_HOOK_off)
next
  case True
  show ?thesis
  proof (cases "rlock t (mutex (hooks st T))")
    case None
    with True show ?thesis by (simp add: MKMOCK_HOOK_blocked)
  next
    case (Some m)
    with True show ?thesis by (simp add: MKMOCK_HOOK_locked)
  qed
qed

lemma hooks_MKMOCK_HOOK_ALLOC: "hooks (snd (MKMOCK_HOOK_ALLOC en t T x d st)) = hooks st"
proof (cases en)
  case False
  then show ?thesis by (simp add: MKMOCK_HOOK_ALLOC_off)
next
  case True
  show ?thesis
  proof (cases "rlock t (mutex (hooks st T))")
    case None
    with True show ?thesis by (simp add: MKMOCK_HOOK_ALLOC_blocked)
  next
    case (Some m)
    with True show ?thesis by (simp add: MKMOCK_HOOK_ALLOC_locked)
  qed
qed

text \<open>The three ways through the first block of \<^verbatim>\<open>MKMOCK_WITH_ENABLED_HOOK\<close>.\<close>

lemma activate_Returned:
  "activate t mv inst = (Returned, inst') \<Longrightarrow>
     \<exists>m v. mv = Yields v \<and> rlock t (mutex inst) = Some m \<and>
       inst' = \<lparr>enabled = True, val = v, saved_value = val inst, saved_exc = None, mutex = m\<rparr>"
  by (cases mv) (auto simp: activate_def Let_def split: option.splits)

lemma MKMOCK_WITH_ENABLED_HOOK_blocked:
  assumes "rlock t (mutex (hooks st T)) = None"
  shows "MKMOCK_WITH_ENABLED_HOOK t T mv snippet st = (Blocked, st)"
  using assms by (simp add: MKMOCK_WITH_ENABLED_HOOK_def activate_def)

lemma MKMOCK_WITH_ENABLED_HOOK_throws:
  assumes "rlock t (mutex (hooks st T)) = Some m"
  shows "MKMOCK_WITH_ENABLED_HOOK t T (Throws e) snippet st =
           (Thrown e,
            st\<lparr>hooks := (hooks st)(T := \<lparr>enabled = enabled (hooks st T), val = val (hooks st T),
                 saved_value = val (hooks st T), saved_exc = None, mutex = m\<rparr>)\<rparr>)"
  using assms
  by (cases "hooks st T") (simp add: MKMOCK_WITH_ENABLED_HOOK_def activate_def Let_def)

lemma MKMOCK_WITH_ENABLED_HOOK_yields:
  assumes "rlock t (mutex (hooks st T)) = Some m"
  shows "MKMOCK_WITH_ENABLED_HOOK t T (Yields v) snippet st =
    (case snippet (st\<lparr>hooks := (hooks st)(T := \<lparr>enabled = True, val = v,
                      saved_value = val (hooks st T), saved_exc = None, mutex = m\<rparr>)\<rparr>) of
       (Returned, st1) \<Rightarrow> teardown t T st1
     | (Thrown (StdException n), st1) \<Rightarrow>
         teardown t T
           (st1\<lparr>hooks := (hooks st1)(T := (hooks st1 T)\<lparr>saved_exc := Some (StdException n)\<rparr>)\<rparr>)
     | (Thrown (Foreign n), st1) \<Rightarrow> (Thrown (Foreign n), st1)
     | (Blocked, st1) \<Rightarrow> (Blocked, st1)
     | (Undefined, st1) \<Rightarrow> (Undefined, st1))"
  using assms
  by (cases "hooks st T") (simp add: MKMOCK_WITH_ENABLED_HOOK_def activate_def Let_def)

lemma teardown_other: "T' \<noteq> T \<Longrightarrow> hooks (snd (teardown t T st)) T' = hooks st T'"
  by (simp add: teardown_def unlock_hook_def Let_def split: option.splits)


lemmas barrier_defs =
  MKMOCK_WITH_ENABLED_HOOK_def activate_def teardown_def unlock_hook_def MKMOCK_HOOK_def
  MKMOCK_HOOK_ALLOC_def initial_def singleton_def Let_def

lemmas fine_defs =
  MKMOCK_WITH_ENABLED_HOOK'_def restore'_def unlock_hook'_def MKMOCK_HOOK'_def
  initial'_def singleton'_def Let_def

section \<open>The hook at the call site\<close>

text \<open>
  Claim C4. When the hook of a tag is not enabled, \<^verbatim>\<open>MKMOCK_HOOK\<close> leaves the variable it
  is given as it was, whatever it held; in fact it leaves the whole state as it was. This
  holds in both headers, with or without \<^verbatim>\<open>MKMOCK_HOOK_ENABLE\<close>, and also when the
  thread has to wait for the mutex.
\<close>

theorem C4_disabled_hook_leaves_slot:
  assumes "\<not> enabled (hooks st T)" and "\<not> enabled' (hooks st' T)"
  shows "vars (snd (MKMOCK_HOOK en t T x st)) x = vars st x
       \<and> snd (MKMOCK_HOOK en t T x st) = st
       \<and> vars (snd (MKMOCK_HOOK' en t T x st')) x = vars st' x
       \<and> snd (MKMOCK_HOOK' en t T x st') = st'"
proof -
  have b: "snd (MKMOCK_HOOK en t T x st) = st"
  proof (cases en)
    case False
    then show ?thesis by (simp add: MKMOCK_HOOK_off)
  next
    case True
    show ?thesis
    proof (cases "rlock t (mutex (hooks st T))")
      case None
      with True show ?thesis by (simp add: MKMOCK_HOOK_blocked)
    next
      case (Some m)
      with True assms(1) show ?thesis by (simp add: MKMOCK_HOOK_locked)
    qed
  qed
  have f: "snd (MKMOCK_HOOK' en t T x st') = st'"
  proof (cases en)
    case False
    then show ?thesis by (simp add: MKMOCK_HOOK'_off)
  next
    case True
    show ?thesis
    proof (cases "mlock t (mutex' (hooks st' T))")
      case None
      with True show ?thesis by (simp add: MKMOCK_HOOK'_blocked)
    next
      case (Some m)
      with True assms(2) show ?thesis by (simp add: MKMOCK_HOOK'_locked)
    qed
  qed
  from b f show ?thesis by simp
qed

theorem C4_disabled_hook_leaves_slot_witness:
  "\<not> enabled (hooks (initial\<lparr>vars := (\<lambda>x. 7)\<rparr> :: int bstate) ''retcode'')
 \<and> \<not> enabled' (hooks (initial'\<lparr>vars := (\<lambda>x. 7)\<rparr> :: int fstate) ''retcode'')
 \<and> vars (snd (MKMOCK_HOOK True 0 ''retcode'' ''rv'' (initial\<lparr>vars := (\<lambda>x. 7::int)\<rparr>))) ''rv'' = 7
 \<and> vars (snd (MKMOCK_HOOK' True 0 ''retcode'' ''rv'' (initial'\<lparr>vars := (\<lambda>x. 7::int)\<rparr>))) ''rv'' = 7"
proof -
  have h: "\<not> enabled (hooks (initial\<lparr>vars := (\<lambda>x. 7)\<rparr> :: int bstate) ''retcode'')"
    by (simp add: initial_def singleton_def)
  have h': "\<not> enabled' (hooks (initial'\<lparr>vars := (\<lambda>x. 7)\<rparr> :: int fstate) ''retcode'')"
    by (simp add: initial'_def singleton'_def)
  from C4_disabled_hook_leaves_slot [OF h h', of True 0 "''rv''"] h h'
  show ?thesis by simp
qed

text \<open>
  Claim C5. When the hook of a tag is enabled and holds the value \<open>V\<close>, \<^verbatim>\<open>MKMOCK_HOOK\<close>
  (compiled with \<^verbatim>\<open>MKMOCK_HOOK_ENABLE\<close>, called by a thread that gets the mutex) returns
  with the variable set to \<open>V\<close>, whatever it held before, and changes nothing else. This
  holds in both headers.
\<close>

theorem C5_enabled_hook_sets_slot:
  assumes "enabled (hooks st T)" and "val (hooks st T) = V"
    and "rlock t (mutex (hooks st T)) \<noteq> None"
    and "enabled' (hooks st' T)" and "val' (hooks st' T) = V"
    and "mlock t (mutex' (hooks st' T)) \<noteq> None"
  shows "MKMOCK_HOOK True t T x st = (Returned, st\<lparr>vars := (vars st)(x := V)\<rparr>)
       \<and> MKMOCK_HOOK' True t T x st' = (Returned, st'\<lparr>vars := (vars st')(x := V)\<rparr>)"
proof -
  from assms(3) obtain m where "rlock t (mutex (hooks st T)) = Some m" by auto
  from MKMOCK_HOOK_locked [OF this] assms(1,2)
  have b: "MKMOCK_HOOK True t T x st = (Returned, st\<lparr>vars := (vars st)(x := V)\<rparr>)" by simp
  from assms(6) obtain m' where "mlock t (mutex' (hooks st' T)) = Some m'" by auto
  from MKMOCK_HOOK'_locked [OF this] assms(4,5)
  have "MKMOCK_HOOK' True t T x st' = (Returned, st'\<lparr>vars := (vars st')(x := V)\<rparr>)" by simp
  with b show ?thesis by simp
qed

theorem C5_enabled_hook_sets_slot_witness:
  "MKMOCK_HOOK True 0 ''retcode'' ''rv''
     (initial\<lparr>vars := (\<lambda>x. 7),
              hooks := (\<lambda>T. singleton\<lparr>enabled := True, val := - 1, mutex := Held 0 0\<rparr>)\<rparr>)
   = (Returned,
      initial\<lparr>vars := (\<lambda>x. 7::int)(''rv'' := - 1),
              hooks := (\<lambda>T. singleton\<lparr>enabled := True, val := - 1, mutex := Held 0 0\<rparr>)\<rparr>)
 \<and> MKMOCK_HOOK' True 0 ''retcode'' ''rv''
     (initial'\<lparr>vars := (\<lambda>x. 7), hooks := (\<lambda>T. singleton'\<lparr>enabled' := True, val' := - 1\<rparr>)\<rparr>)
   = (Returned,
      initial'\<lparr>vars := (\<lambda>x. 7::int)(''rv'' := - 1),
               hooks := (\<lambda>T. singleton'\<lparr>enabled' := True, val' := - 1\<rparr>)\<rparr>)"
  using C5_enabled_hook_sets_slot
    [of "initial\<lparr>vars := (\<lambda>x. 7),
                  hooks := (\<lambda>T. singleton\<lparr>enabled := True, val := - 1, mutex := Held 0 0\<rparr>)\<rparr>"
        "''retcode''" "- 1 :: int" 0
        "initial'\<lparr>vars := (\<lambda>x. 7), hooks := (\<lambda>T. singleton'\<lparr>enabled' := True, val' := - 1\<rparr>)\<rparr>"
        "''rv''"]
  by (simp add: initial_def singleton_def initial'_def singleton'_def)

text \<open>
  Claim C6. \<^verbatim>\<open>MKMOCK_HOOK_ALLOC\<close> (compiled with \<^verbatim>\<open>MKMOCK_HOOK_ENABLE\<close>, called by a
  thread that gets the mutex) returns, and the calls it makes to the deleter are: one call,
  on the value the variable held before the override, if the hook is enabled and that
  value is not null; no call otherwise. When the hook is disabled it makes no call,
  however it is compiled and whoever holds the mutex.
\<close>

theorem C6_deleter_called_once_iff_enabled_and_non_null:
  "(rlock t (mutex (hooks st T)) \<noteq> None \<longrightarrow>
      fst (MKMOCK_HOOK_ALLOC True t T x d st) = Returned
    \<and> deleted (snd (MKMOCK_HOOK_ALLOC True t T x d st)) =
        deleted st @ (if enabled (hooks st T) \<and> vars st x \<noteq> 0 then [(d, vars st x)] else [])
    \<and> (deleted (snd (MKMOCK_HOOK_ALLOC True t T x d st)) = deleted st @ [(d, vars st x)]
         \<longleftrightarrow> enabled (hooks st T) \<and> vars st x \<noteq> 0)
    \<and> vars (snd (MKMOCK_HOOK_ALLOC True t T x d st)) x =
        (if enabled (hooks st T) then val (hooks st T) else vars st x))
 \<and> (\<not> enabled (hooks st T) \<longrightarrow>
      deleted (snd (MKMOCK_HOOK_ALLOC en t T x d st)) = deleted st)"
proof -
  have called: "fst (MKMOCK_HOOK_ALLOC True t T x d st) = Returned
    \<and> deleted (snd (MKMOCK_HOOK_ALLOC True t T x d st)) =
        deleted st @ (if enabled (hooks st T) \<and> vars st x \<noteq> 0 then [(d, vars st x)] else [])
    \<and> (deleted (snd (MKMOCK_HOOK_ALLOC True t T x d st)) = deleted st @ [(d, vars st x)]
         \<longleftrightarrow> enabled (hooks st T) \<and> vars st x \<noteq> 0)
    \<and> vars (snd (MKMOCK_HOOK_ALLOC True t T x d st)) x =
        (if enabled (hooks st T) then val (hooks st T) else vars st x)"
    if "rlock t (mutex (hooks st T)) \<noteq> None"
  proof -
    from that obtain m where "rlock t (mutex (hooks st T)) = Some m" by auto
    from MKMOCK_HOOK_ALLOC_locked [OF this, of x d] show ?thesis by simp
  qed
  have never: "deleted (snd (MKMOCK_HOOK_ALLOC en t T x d st)) = deleted st"
    if off: "\<not> enabled (hooks st T)"
  proof (cases en)
    case False
    then show ?thesis by (simp add: MKMOCK_HOOK_ALLOC_off)
  next
    case True
    show ?thesis
    proof (cases "rlock t (mutex (hooks st T))")
      case None
      with True show ?thesis by (simp add: MKMOCK_HOOK_ALLOC_blocked)
    next
      case (Some m)
      with True off show ?thesis by (simp add: MKMOCK_HOOK_ALLOC_locked)
    qed
  qed
  from called never show ?thesis by blast
qed

theorem C6_deleter_called_once_iff_enabled_and_non_null_witness:
  "rlock 0 (mutex (hooks (initial\<lparr>vars := (\<lambda>x. 4096),
              hooks := (\<lambda>T. singleton\<lparr>enabled := True, mutex := Held 0 0\<rparr>)\<rparr> :: nat bstate)
            ''alloc_call'')) \<noteq> None
 \<and> deleted (snd (MKMOCK_HOOK_ALLOC True 0 ''alloc_call'' ''buf'' ''free''
       (initial\<lparr>vars := (\<lambda>x. 4096),
                hooks := (\<lambda>T. singleton\<lparr>enabled := True, mutex := Held 0 0\<rparr>)\<rparr> :: nat bstate)))
     = [(''free'', 4096)]
 \<and> vars (snd (MKMOCK_HOOK_ALLOC True 0 ''alloc_call'' ''buf'' ''free''
       (initial\<lparr>vars := (\<lambda>x. 4096),
                hooks := (\<lambda>T. singleton\<lparr>enabled := True, mutex := Held 0 0\<rparr>)\<rparr> :: nat bstate)))
     ''buf'' = 0
 \<and> \<not> enabled (hooks (initial\<lparr>vars := (\<lambda>x. 4096)\<rparr> :: nat bstate) ''alloc_call'')
 \<and> deleted (snd (MKMOCK_HOOK_ALLOC True 0 ''alloc_call'' ''buf'' ''free''
       (initial\<lparr>vars := (\<lambda>x. 4096)\<rparr> :: nat bstate))) = []"
  using C6_deleter_called_once_iff_enabled_and_non_null
    [of 0 "initial\<lparr>vars := (\<lambda>x. 4096),
                   hooks := (\<lambda>T. singleton\<lparr>enabled := True, mutex := Held 0 0\<rparr>)\<rparr> :: nat bstate"
        "''alloc_call''" "''buf''" "''free''" True]
    C6_deleter_called_once_iff_enabled_and_non_null
    [of 0 "initial\<lparr>vars := (\<lambda>x. 4096)\<rparr> :: nat bstate"
        "''alloc_call''" "''buf''" "''free''" True]
  by (simp add: initial_def singleton_def)

text \<open>
  Claim C9. Without \<^verbatim>\<open>MKMOCK_HOOK_ENABLE\<close> the macros \<^verbatim>\<open>MKMOCK_HOOK\<close> and
  \<^verbatim>\<open>MKMOCK_HOOK_ALLOC\<close> do nothing: they return, the variable, the hooks and the rest of the
  state are unchanged, and no deleter is called.
\<close>

theorem C9_compiled_out_hooks_do_nothing:
  "MKMOCK_HOOK False t T x st = (Returned, st)
 \<and> MKMOCK_HOOK_ALLOC False t T x d st = (Returned, st)
 \<and> deleted (snd (MKMOCK_HOOK_ALLOC False t T x d st)) = deleted st
 \<and> MKMOCK_HOOK' False t T x st' = (Returned, st')"
  by (simp add: MKMOCK_HOOK_def MKMOCK_HOOK_ALLOC_def MKMOCK_HOOK'_def)

section \<open>The matched pair \<open>enabled\<close> and \<open>saved_value\<close>\<close>








section \<open>The scoped override\<close>

text \<open>
  A snippet that does not override the tag \<open>T\<close> leaves the singleton of \<open>T\<close> as it is,
  in both headers.
\<close>

lemma hooks_MKMOCK_WITH_ENABLED_HOOK_other:
  assumes ne: "T \<noteq> T0"
    and snip: "\<And>s. hooks (snd (snippet s)) T = hooks s T"
  shows "hooks (snd (MKMOCK_WITH_ENABLED_HOOK t T0 mv snippet st)) T = hooks st T"
proof (cases "rlock t (mutex (hooks st T0))")
  case None
  then show ?thesis by (simp add: MKMOCK_WITH_ENABLED_HOOK_blocked)
next
  case (Some m)
  show ?thesis
  proof (cases mv)
    case (Throws e)
    with ne show ?thesis by (simp add: MKMOCK_WITH_ENABLED_HOOK_throws [OF Some])
  next
    case (Yields v)
    note start = MKMOCK_WITH_ENABLED_HOOK_yields [OF Some]
    let ?s = "st\<lparr>hooks := (hooks st)(T0 := \<lparr>enabled = True, val = v,
                 saved_value = val (hooks st T0), saved_exc = None, mutex = m\<rparr>)\<rparr>"
    obtain out st1 where run: "snippet ?s = (out, st1)" by (cases "snippet ?s")
    from snip [of ?s] run ne have st1: "hooks st1 T = hooks st T" by simp
    show ?thesis
    proof (cases out)
      case Returned
      with Yields run st1 show ?thesis by (simp add: start teardown_other [OF ne])
    next
      case (Thrown e)
      with Yields run st1 ne show ?thesis
        by (cases e) (simp_all add: start teardown_other [OF ne])
    next
      case Blocked
      with Yields run st1 show ?thesis by (simp add: start)
    next
      case Undefined
      with Yields run st1 show ?thesis by (simp add: start)
    qed
  qed
qed

lemma hooks_exec_other:
  "\<not> overrides T c \<Longrightarrow> hooks (snd (exec en t c st)) T = hooks st T"
  "\<not> overrides_block T blk \<Longrightarrow> hooks (snd (exec_block en t blk st)) T = hooks st T"
proof (induction en t c st and en t blk st rule: exec_exec_block.induct)
  case (1 en t x v st)
  then show ?case by simp
next
  case (2 en t T' x st)
  then show ?case by (simp add: hooks_MKMOCK_HOOK)
next
  case (3 en t T' x d st)
  then show ?case by (simp add: hooks_MKMOCK_HOOK_ALLOC)
next
  case (4 en t T' mv blk st)
  from 4(2) have ne: "T \<noteq> T'" and blk: "\<not> overrides_block T blk" by auto
  show ?case
    unfolding exec.simps
    by (rule hooks_MKMOCK_WITH_ENABLED_HOOK_other [OF ne]) (rule 4(1) [OF blk])
next
  case (5 en t e st)
  then show ?case by simp
next
  case (6 en t st)
  then show ?case by simp
next
  case (7 en t c cs st)
  from 7(3) have c: "\<not> overrides T c" and cs: "\<not> overrides_block T cs" by auto
  obtain out st1 where run: "exec en t c st = (out, st1)" by (cases "exec en t c st")
  from 7(1) [OF c] run have st1: "hooks st1 T = hooks st T" by simp
  show ?case
  proof (cases "out = Returned")
    case True
    with 7(2) [of out st1, OF _ _ cs] run st1 show ?thesis by simp
  next
    case False
    with run st1 show ?thesis by (cases out) simp_all
  qed
qed

lemma hooks_MKMOCK_HOOK': "hooks (snd (MKMOCK_HOOK' en t T x st)) = hooks st"
proof (cases en)
  case False
  then show ?thesis by (simp add: MKMOCK_HOOK'_off)
next
  case True
  show ?thesis
  proof (cases "mlock t (mutex' (hooks st T))")
    case None
    with True show ?thesis by (simp add: MKMOCK_HOOK'_blocked)
  next
    case (Some m)
    with True show ?thesis by (simp add: MKMOCK_HOOK'_locked)
  qed
qed

lemma restore'_other: "T \<noteq> T0 \<Longrightarrow> hooks (snd (restore' t T0 sv e st)) T = hooks st T"
  by (simp add: restore'_def unlock_hook'_def Let_def split: option.splits)

lemma restore'_unlocked:
  assumes "mutex' (hooks st T) = Unlocked"
  shows "restore' t T sv e st =
           (case e of None \<Rightarrow> Returned | Some x \<Rightarrow> Thrown x,
            st\<lparr>hooks := (hooks st)(T := (hooks st T)\<lparr>enabled' := False, val' := sv\<rparr>)\<rparr>)"
proof -
  from assms
  have eq: "(hooks st T)\<lparr>enabled' := False, val' := sv, mutex' := Unlocked\<rparr>
      = (hooks st T)\<lparr>enabled' := False, val' := sv\<rparr>"
    by (cases "hooks st T") simp
  from assms show ?thesis
    by (simp add: restore'_def unlock_hook'_def Let_def eq split: option.split)
qed

text \<open>The three ways through the first locked scope of \<^verbatim>\<open>src/unnamed/part_000\<close>.\<close>

lemma MKMOCK_WITH_ENABLED_HOOK'_locked:
  assumes "mutex' (hooks st T) = Locked u"
  shows "MKMOCK_WITH_ENABLED_HOOK' t T mv snippet st = (Blocked, st)"
  using assms by (simp add: MKMOCK_WITH_ENABLED_HOOK'_def)

lemma MKMOCK_WITH_ENABLED_HOOK'_throws:
  assumes "mutex' (hooks st T) = Unlocked"
  shows "MKMOCK_WITH_ENABLED_HOOK' t T (Throws e) snippet st = (Thrown e, st)"
proof -
  from assms have eq: "(hooks st T)\<lparr>mutex' := Unlocked\<rparr> = hooks st T"
    by (cases "hooks st T") simp
  from assms show ?thesis
    by (simp add: MKMOCK_WITH_ENABLED_HOOK'_def unlock_hook'_def Let_def eq)
qed

lemma MKMOCK_WITH_ENABLED_HOOK'_unlocked:
  assumes "mutex' (hooks st T) = Unlocked"
  shows "MKMOCK_WITH_ENABLED_HOOK' t T (Yields v) snippet st =
    (case snippet (st\<lparr>hooks := (hooks st)(T := (hooks st T)\<lparr>val' := v, enabled' := True\<rparr>)\<rparr>) of
       (Returned, st3) \<Rightarrow> restore' t T (val' (hooks st T)) None st3
     | (Thrown (StdException n), st3) \<Rightarrow>
         restore' t T (val' (hooks st T)) (Some (StdException n)) st3
     | (Thrown (Foreign n), st3) \<Rightarrow> (Thrown (Foreign n), st3)
     | (Blocked, st3) \<Rightarrow> (Blocked, st3)
     | (Undefined, st3) \<Rightarrow> (Undefined, st3))"
proof -
  from assms
  have eq: "(hooks st T)\<lparr>val' := v, enabled' := True, mutex' := Unlocked\<rparr>
      = (hooks st T)\<lparr>val' := v, enabled' := True\<rparr>"
    by (cases "hooks st T") simp
  from assms show ?thesis
    by (simp add: MKMOCK_WITH_ENABLED_HOOK'_def unlock_hook'_def Let_def eq
             split: prod.split outcome.split exc.split)
qed

lemma hooks_MKMOCK_WITH_ENABLED_HOOK'_other:
  assumes ne: "T \<noteq> T0"
    and snip: "\<And>s. hooks (snd (snippet s)) T = hooks s T"
  shows "hooks (snd (MKMOCK_WITH_ENABLED_HOOK' t T0 mv snippet st)) T = hooks st T"
proof (cases "mutex' (hooks st T0)")
  case (Locked u)
  then show ?thesis by (simp add: MKMOCK_WITH_ENABLED_HOOK'_locked)
next
  case Unlocked
  show ?thesis
  proof (cases mv)
    case (Throws e)
    then show ?thesis by (simp add: MKMOCK_WITH_ENABLED_HOOK'_throws [OF Unlocked])
  next
    case (Yields v)
    let ?s = "st\<lparr>hooks := (hooks st)(T0 := (hooks st T0)\<lparr>val' := v, enabled' := True\<rparr>)\<rparr>"
    note start = MKMOCK_WITH_ENABLED_HOOK'_unlocked [OF Unlocked]
    obtain out st1 where run: "snippet ?s = (out, st1)" by (cases "snippet ?s")
    from snip [of ?s] run ne have st1: "hooks st1 T = hooks st T" by simp
    show ?thesis
    proof (cases out)
      case Returned
      with Yields run st1 show ?thesis by (simp add: start restore'_other [OF ne])
    next
      case (Thrown e)
      with Yields run st1 show ?thesis
        by (cases e) (simp_all add: start restore'_other [OF ne])
    next
      case Blocked
      with Yields run st1 show ?thesis by (simp add: start)
    next
      case Undefined
      with Yields run st1 show ?thesis by (simp add: start)
    qed
  qed
qed

lemma hooks_exec'_other:
  "\<not> overrides T (embed c) \<Longrightarrow> hooks (snd (exec' en t c st)) T = hooks st T"
  "\<not> overrides_block T (map embed blk) \<Longrightarrow> hooks (snd (exec_block' en t blk st)) T = hooks st T"
proof (induction en t c st and en t blk st rule: exec'_exec_block'.induct)
  case (1 en t x v st)
  then show ?case by simp
next
  case (2 en t T' x st)
  then show ?case by (simp add: hooks_MKMOCK_HOOK')
next
  case (3 en t T' mv blk st)
  from 3(2) have ne: "T \<noteq> T'" and blk: "\<not> overrides_block T (map embed blk)" by auto
  show ?case
    unfolding exec'.simps
    by (rule hooks_MKMOCK_WITH_ENABLED_HOOK'_other [OF ne]) (rule 3(1) [OF blk])
next
  case (4 en t e st)
  then show ?case by simp
next
  case (5 en t st)
  then show ?case by simp
next
  case (6 en t c cs st)
  from 6(3) have c: "\<not> overrides T (embed c)" and cs: "\<not> overrides_block T (map embed cs)"
    by auto
  obtain out st1 where run: "exec' en t c st = (out, st1)" by (cases "exec' en t c st")
  from 6(1) [OF c] run have st1: "hooks st1 T = hooks st T" by simp
  show ?case
  proof (cases "out = Returned")
    case True
    with 6(2) [of out st1, OF _ _ cs] run st1 show ?thesis by simp
  next
    case False
    with run st1 show ?thesis by (cases out) simp_all
  qed
qed

text \<open>
  Where the override is undone. In \<^verbatim>\<open>src/mkmock.hpp\<close> the value comes back from the field
  \<open>saved_value\<close> of the singleton: the value before the call is restored when the snippet
  has left the singleton as the first block set it, which a snippet without an override of
  the same tag does. In \<^verbatim>\<open>src/unnamed/part_000\<close> the value comes back from the local
  \<^verbatim>\<open>SavedValue\<close>: the value before the call is restored after every snippet.
\<close>

lemma teardown_held:
  assumes "runlock t (mutex (hooks s T)) = Some m"
  shows "teardown t T s =
           (case saved_exc (hooks s T) of None \<Rightarrow> Returned | Some e \<Rightarrow> Thrown e,
            s\<lparr>hooks := (hooks s)(T := \<lparr>enabled = False, val = saved_value (hooks s T),
                 saved_value = 0, saved_exc = None, mutex = m\<rparr>)\<rparr>)"
  using assms
  by (cases "hooks s T") (simp add: teardown_def unlock_hook_def Let_def split: option.split)

lemma MKMOCK_WITH_ENABLED_HOOK_restores:
  assumes act: "activate t (Yields v) (hooks st T) = (Returned, inst)"
    and snip: "snippet (st\<lparr>hooks := (hooks st)(T := inst)\<rparr>) = (out, st1)"
    and out: "out = Returned \<or> out = Thrown (StdException n)"
    and same: "hooks st1 T = inst"
  shows "MKMOCK_WITH_ENABLED_HOOK t T (Yields v) snippet st =
           (out, st1\<lparr>hooks := (hooks st1)(T := \<lparr>enabled = False, val = val (hooks st T),
                  saved_value = 0, saved_exc = None, mutex = mutex (hooks st T)\<rparr>)\<rparr>)"
proof -
  from activate_Returned [OF act] obtain m where m: "rlock t (mutex (hooks st T)) = Some m"
    and inst: "inst = \<lparr>enabled = True, val = v, saved_value = val (hooks st T),
                       saved_exc = None, mutex = m\<rparr>" by auto
  from rlock_runlock [OF m] have un: "runlock t m = Some (mutex (hooks st T))" .
  from out show ?thesis
  proof
    assume "out = Returned"
    with snip same inst un show ?thesis
      by (simp add: MKMOCK_WITH_ENABLED_HOOK_yields [OF m] teardown_held)
  next
    assume "out = Thrown (StdException n)"
    with snip same inst un show ?thesis
      by (simp add: MKMOCK_WITH_ENABLED_HOOK_yields [OF m] teardown_held)
  qed
qed

lemma flat_override_restores:
  assumes act: "activate t (Yields v) (hooks st T) = (Returned, inst)"
    and blk: "exec_block en t blk (st\<lparr>hooks := (hooks st)(T := inst)\<rparr>) = (out, st1)"
    and out: "out = Returned \<or> out = Thrown (StdException n)"
    and flat: "\<not> overrides_block T blk"
  shows "exec en t (WithEnabledHook T (Yields v) blk) st =
           (out, st1\<lparr>hooks := (hooks st1)(T := \<lparr>enabled = False, val = val (hooks st T),
                  saved_value = 0, saved_exc = None, mutex = mutex (hooks st T)\<rparr>)\<rparr>)"
proof -
  from hooks_exec_other(2) [OF flat, of en t "st\<lparr>hooks := (hooks st)(T := inst)\<rparr>"] blk
  have "hooks st1 T = inst" by simp
  from MKMOCK_WITH_ENABLED_HOOK_restores
         [of t v st T inst "exec_block en t blk" out st1 n, OF act blk out this]
  show ?thesis by simp
qed

lemma MKMOCK_WITH_ENABLED_HOOK'_restores:
  assumes free: "mutex' (hooks st T) = Unlocked"
    and snip: "snippet (st\<lparr>hooks := (hooks st)(T := (hooks st T)\<lparr>val' := v, enabled' := True\<rparr>)\<rparr>)
               = (out, st1)"
    and out: "out = Returned \<or> out = Thrown (StdException n)"
    and free1: "mutex' (hooks st1 T) = Unlocked"
  shows "MKMOCK_WITH_ENABLED_HOOK' t T (Yields v) snippet st =
           (out, st1\<lparr>hooks := (hooks st1)(T := (hooks st1 T)\<lparr>enabled' := False,
                  val' := val' (hooks st T)\<rparr>)\<rparr>)"
  using out snip
  by (auto simp: MKMOCK_WITH_ENABLED_HOOK'_unlocked [OF free] restore'_unlocked [OF free1])

lemma unlocked_MKMOCK_WITH_ENABLED_HOOK':
  assumes snip: "\<And>s. \<forall>T. mutex' (hooks s T) = Unlocked \<Longrightarrow>
                   \<forall>T. mutex' (hooks (snd (snippet s)) T) = Unlocked"
    and st: "\<forall>T. mutex' (hooks st T) = Unlocked"
  shows "\<forall>T. mutex' (hooks (snd (MKMOCK_WITH_ENABLED_HOOK' t T0 mv snippet st)) T) = Unlocked"
proof (cases mv)
  case (Throws e)
  from st have "mutex' (hooks st T0) = Unlocked" by simp
  with Throws st show ?thesis by (simp add: MKMOCK_WITH_ENABLED_HOOK'_throws)
next
  case (Yields v)
  let ?s = "st\<lparr>hooks := (hooks st)(T0 := (hooks st T0)\<lparr>val' := v, enabled' := True\<rparr>)\<rparr>"
  from st have free: "mutex' (hooks st T0) = Unlocked" by simp
  note start = MKMOCK_WITH_ENABLED_HOOK'_unlocked [OF free]
  from st have "\<forall>T. mutex' (hooks ?s T) = Unlocked" by simp
  from snip [OF this] obtain out st1 where run: "snippet ?s = (out, st1)"
    and st1: "\<forall>T. mutex' (hooks st1 T) = Unlocked"
    by (cases "snippet ?s") auto
  from st1 have free1: "mutex' (hooks st1 T0) = Unlocked" by simp
  show ?thesis
  proof (cases out)
    case Returned
    with Yields run st1 show ?thesis by (simp add: start restore'_unlocked [OF free1])
  next
    case (Thrown e)
    with Yields run st1 show ?thesis
      by (cases e) (simp_all add: start restore'_unlocked [OF free1])
  next
    case Blocked
    with Yields run st1 show ?thesis by (simp add: start)
  next
    case Undefined
    with Yields run st1 show ?thesis by (simp add: start)
  qed
qed

lemma unlocked_exec':
  "\<forall>T. mutex' (hooks st T) = Unlocked \<Longrightarrow>
     \<forall>T. mutex' (hooks (snd (exec' en t c st)) T) = Unlocked"
  "\<forall>T. mutex' (hooks st T) = Unlocked \<Longrightarrow>
     \<forall>T. mutex' (hooks (snd (exec_block' en t blk st)) T) = Unlocked"
proof (induction en t c st and en t blk st rule: exec'_exec_block'.induct)
  case (1 en t x v st)
  then show ?case by simp
next
  case (2 en t T x st)
  then show ?case by (simp add: hooks_MKMOCK_HOOK')
next
  case (3 en t T mv blk st)
  show ?case
    unfolding exec'.simps
    by (rule unlocked_MKMOCK_WITH_ENABLED_HOOK') (use 3 in blast)+
next
  case (4 en t e st)
  then show ?case by simp
next
  case (5 en t st)
  then show ?case by simp
next
  case (6 en t c cs st)
  obtain out st1 where c: "exec' en t c st = (out, st1)" by (cases "exec' en t c st")
  from 6(1) [OF 6(3)] c have st1: "\<forall>T. mutex' (hooks st1 T) = Unlocked" by simp
  show ?case
  proof (cases "out = Returned")
    case True
    with 6(2) [of out st1] c st1 show ?thesis by simp
  next
    case False
    with c st1 show ?thesis by (cases out) simp_all
  qed
qed

lemma part_000_override_restores:
  assumes free: "\<forall>T. mutex' (hooks st T) = Unlocked"
    and blk: "exec_block' en t blk
                (st\<lparr>hooks := (hooks st)(T := (hooks st T)\<lparr>val' := v, enabled' := True\<rparr>)\<rparr>)
              = (out, st1)"
    and out: "out = Returned \<or> out = Thrown (StdException n)"
  shows "exec' en t (WithEnabledHook' T (Yields v) blk) st =
           (out, st1\<lparr>hooks := (hooks st1)(T := (hooks st1 T)\<lparr>enabled' := False,
                  val' := val' (hooks st T)\<rparr>)\<rparr>)"
proof -
  let ?s = "st\<lparr>hooks := (hooks st)(T := (hooks st T)\<lparr>val' := v, enabled' := True\<rparr>)\<rparr>"
  from free have f0: "mutex' (hooks st T) = Unlocked" by simp
  from free have "\<forall>T. mutex' (hooks ?s T) = Unlocked" by simp
  from unlocked_exec'(2) [OF this, of en t blk] blk
  have f1: "mutex' (hooks st1 T) = Unlocked" by simp
  from MKMOCK_WITH_ENABLED_HOOK'_restores
         [of st T "exec_block' en t blk" v out st1 n t, OF f0 blk out f1]
  show ?thesis by simp
qed

text \<open>
  Claim C1. After \<^verbatim>\<open>MKMOCK_WITH_ENABLED_HOOK\<close> returns, the hook is disabled and its value
  is the one it held before the call. \<^verbatim>\<open>src/mkmock.hpp\<close> does not do this for every
  snippet: inside \<^verbatim>\<open>MKMOCK_WITH_ENABLED_HOOK(retcode, 1, ...)\<close> the value is 1, and there
  \<^verbatim>\<open>MKMOCK_WITH_ENABLED_HOOK(retcode, 2, { MKMOCK_WITH_ENABLED_HOOK(retcode, 3, {}); })\<close>
  returns with the hook disabled and the value 0: the innermost teardown has cleared the
  \<open>saved_value\<close> that the middle call restores from.
\<close>

theorem C1_nested_override_returns_with_default_value:
  "activate 0 (Yields 1) (hooks (initial :: int bstate) ''retcode'') = (Returned, outer_inst)
 \<and> val (hooks in_outer ''retcode'') = 1
 \<and> fst (exec True 0 nested_returning in_outer) = Returned
 \<and> enabled (hooks (snd (exec True 0 nested_returning in_outer)) ''retcode'') = False
 \<and> val (hooks (snd (exec True 0 nested_returning in_outer)) ''retcode'') = 0"
  by (simp add: in_outer_def outer_inst_def nested_returning_def barrier_defs)

text \<open>
  Claim C2. When the snippet throws an exception derived from \<^verbatim>\<open>std::exception\<close>,
  \<^verbatim>\<open>MKMOCK_WITH_ENABLED_HOOK\<close> throws that exception, with the hook disabled and its
  value restored. \<^verbatim>\<open>src/mkmock.hpp\<close> does not restore the value for every snippet: inside
  \<^verbatim>\<open>MKMOCK_WITH_ENABLED_HOOK(retcode, 1, ...)\<close>, where the value is 1, a call whose
  snippet runs \<^verbatim>\<open>MKMOCK_WITH_ENABLED_HOOK(retcode, 3, {})\<close> and then throws does throw that
  exception with the hook disabled, but with the value 0.
\<close>

theorem C2_nested_override_throws_with_default_value:
  "activate 0 (Yields 1) (hooks (initial :: int bstate) ''retcode'') = (Returned, outer_inst)
 \<and> val (hooks in_outer ''retcode'') = 1
 \<and> fst (exec True 0 nested_throwing in_outer) = Thrown (StdException 7)
 \<and> enabled (hooks (snd (exec True 0 nested_throwing in_outer)) ''retcode'') = False
 \<and> val (hooks (snd (exec True 0 nested_throwing in_outer)) ''retcode'') = 0"
  by (simp add: in_outer_def outer_inst_def nested_throwing_def barrier_defs)

text \<open>
  Claim C3, as stated: when the snippet throws something that is not a
  \<^verbatim>\<open>std::exception\<close>, the hook is left enabled with the mocked value. It is not so when
  the snippet has run an override of the same tag before it throws: that override disables
  the hook when it ends. This is so in both headers.
\<close>

theorem C3_nested_override_disables_hook_counterexample:
  "fst (exec True 0 (WithEnabledHook ''retcode'' (Yields (1::int))
          [WithEnabledHook ''retcode'' (Yields 2) [], Throw (Foreign 42)]) initial)
     = Thrown (Foreign 42)
 \<and> \<not> enabled (hooks (snd (exec True 0 (WithEnabledHook ''retcode'' (Yields (1::int))
          [WithEnabledHook ''retcode'' (Yields 2) [], Throw (Foreign 42)]) initial)) ''retcode'')
 \<and> fst (exec' True 0 (WithEnabledHook' ''retcode'' (Yields (1::int))
          [WithEnabledHook' ''retcode'' (Yields 2) [], Throw' (Foreign 42)]) initial')
     = Thrown (Foreign 42)
 \<and> \<not> enabled' (hooks (snd (exec' True 0 (WithEnabledHook' ''retcode'' (Yields (1::int))
          [WithEnabledHook' ''retcode'' (Yields 2) [], Throw' (Foreign 42)]) initial')) ''retcode'')"
  by (simp add: barrier_defs fine_defs)

text \<open>
  Claim C3, amended. When the snippet throws something that is not a \<^verbatim>\<open>std::exception\<close>,
  \<^verbatim>\<open>MKMOCK_WITH_ENABLED_HOOK\<close> throws it at once and runs no teardown: the state is the one
  the snippet left, whatever the snippet is. When the snippet contains no override of the
  same tag, the hook is left enabled with the mocked value (and, in \<^verbatim>\<open>src/mkmock.hpp\<close>,
  the value before the call is still in \<open>saved_value\<close>). This holds in both headers.
\<close>

theorem C3_foreign_exception_skips_teardown:
  assumes act: "activate t (Yields v) (hooks st T) = (Returned, inst)"
    and blk: "exec_block en t blk (st\<lparr>hooks := (hooks st)(T := inst)\<rparr>) = (Thrown (Foreign n), st1)"
    and free': "mutex' (hooks st' T) = Unlocked"
    and blk': "exec_block' en t blk'
                 (st'\<lparr>hooks := (hooks st')(T := (hooks st' T)\<lparr>val' := v, enabled' := True\<rparr>)\<rparr>)
               = (Thrown (Foreign n'), st1')"
  shows "exec en t (WithEnabledHook T (Yields v) blk) st = (Thrown (Foreign n), st1)
       \<and> (\<not> overrides_block T blk \<longrightarrow>
            enabled (hooks st1 T) \<and> val (hooks st1 T) = v
          \<and> saved_value (hooks st1 T) = val (hooks st T))
       \<and> exec' en t (WithEnabledHook' T (Yields v) blk') st' = (Thrown (Foreign n'), st1')
       \<and> (\<not> overrides_block T (map embed blk') \<longrightarrow>
            enabled' (hooks st1' T) \<and> val' (hooks st1' T) = v)"
proof -
  from activate_Returned [OF act] obtain m where m: "rlock t (mutex (hooks st T)) = Some m"
    and inst: "inst = \<lparr>enabled = True, val = v, saved_value = val (hooks st T),
                       saved_exc = None, mutex = m\<rparr>" by auto
  from blk inst
  have raised: "exec en t (WithEnabledHook T (Yields v) blk) st = (Thrown (Foreign n), st1)"
    by (simp add: MKMOCK_WITH_ENABLED_HOOK_yields [OF m])
  have left: "enabled (hooks st1 T) \<and> val (hooks st1 T) = v
            \<and> saved_value (hooks st1 T) = val (hooks st T)" if flat: "\<not> overrides_block T blk"
  proof -
    from hooks_exec_other(2) [OF flat, of en t "st\<lparr>hooks := (hooks st)(T := inst)\<rparr>"] blk
    have "hooks st1 T = inst" by simp
    with inst show ?thesis by simp
  qed
  from blk'
  have raised': "exec' en t (WithEnabledHook' T (Yields v) blk') st' = (Thrown (Foreign n'), st1')"
    by (simp add: MKMOCK_WITH_ENABLED_HOOK'_unlocked [OF free'])
  have left': "enabled' (hooks st1' T) \<and> val' (hooks st1' T) = v"
    if flat': "\<not> overrides_block T (map embed blk')"
  proof -
    from hooks_exec'_other(2) [OF flat',
        of en t "st'\<lparr>hooks := (hooks st')(T := (hooks st' T)\<lparr>val' := v, enabled' := True\<rparr>)\<rparr>"] blk'
    have "hooks st1' T = (hooks st' T)\<lparr>val' := v, enabled' := True\<rparr>" by simp
    then show ?thesis by simp
  qed
  from raised left raised' left' show ?thesis by blast
qed

theorem C3_foreign_exception_skips_teardown_witness:
  "fst (exec True 0 (WithEnabledHook ''retcode'' (Yields (- 1))
          [Assign ''rv'' 0, Hook ''retcode'' ''rv'', Throw (Foreign 42)]) (initial :: int bstate))
     = Thrown (Foreign 42)
 \<and> enabled (hooks (snd (exec True 0 (WithEnabledHook ''retcode'' (Yields (- 1))
          [Assign ''rv'' 0, Hook ''retcode'' ''rv'', Throw (Foreign 42)]) (initial :: int bstate)))
        ''retcode'')
 \<and> val (hooks (snd (exec True 0 (WithEnabledHook ''retcode'' (Yields (- 1))
          [Assign ''rv'' 0, Hook ''retcode'' ''rv'', Throw (Foreign 42)]) (initial :: int bstate)))
        ''retcode'') = - 1
 \<and> fst (exec' True 0 (WithEnabledHook' ''retcode'' (Yields (- 1))
          [Assign' ''rv'' 0, Hook' ''retcode'' ''rv'', Throw' (Foreign 42)]) (initial' :: int fstate))
     = Thrown (Foreign 42)
 \<and> enabled' (hooks (snd (exec' True 0 (WithEnabledHook' ''retcode'' (Yields (- 1))
          [Assign' ''rv'' 0, Hook' ''retcode'' ''rv'', Throw' (Foreign 42)]) (initial' :: int fstate)))
        ''retcode'')
 \<and> val' (hooks (snd (exec' True 0 (WithEnabledHook' ''retcode'' (Yields (- 1))
          [Assign' ''rv'' 0, Hook' ''retcode'' ''rv'', Throw' (Foreign 42)]) (initial' :: int fstate)))
        ''retcode'') = - 1"
proof -
  let ?inst = "\<lparr>enabled = True, val = - 1 :: int, saved_value = 0, saved_exc = None,
                 mutex = Held 0 0\<rparr>"
  let ?blk = "[Assign ''rv'' 0, Hook ''retcode'' ''rv'', Throw (Foreign 42)] :: int stmt list"
  let ?blk' = "[Assign' ''rv'' 0, Hook' ''retcode'' ''rv'', Throw' (Foreign 42)] :: int stmt' list"
  let ?s = "initial\<lparr>hooks := (hooks initial)(''retcode'' := ?inst)\<rparr>"
  let ?s' = "initial'\<lparr>hooks := (hooks initial')
               (''retcode'' := (hooks initial' ''retcode'')\<lparr>val' := - 1 :: int, enabled' := True\<rparr>)\<rparr>"
  have act: "activate 0 (Yields (- 1)) (hooks (initial :: int bstate) ''retcode'')
               = (Returned, ?inst)"
    by (simp add: barrier_defs)
  have blk: "exec_block True 0 ?blk ?s = (Thrown (Foreign 42), snd (exec_block True 0 ?blk ?s))"
    by (simp add: barrier_defs)
  have flat: "\<not> overrides_block ''retcode'' ?blk" by simp
  have free': "mutex' (hooks (initial' :: int fstate) ''retcode'') = Unlocked"
    by (simp add: fine_defs)
  have blk': "exec_block' True 0 ?blk' ?s' = (Thrown (Foreign 42), snd (exec_block' True 0 ?blk' ?s'))"
    by (simp add: fine_defs)
  have flat': "\<not> overrides_block ''retcode'' (map embed ?blk')" by simp
  from C3_foreign_exception_skips_teardown [OF act blk free' blk'] flat flat'
  show ?thesis by simp
qed

section \<open>The mutex of \<^verbatim>\<open>src/mkmock.hpp\<close> after an exception that is not caught\<close>

text \<open>
  A thread that owns the mutex of a tag keeps it through every statement of every thread:
  the other threads wait, and its own statements unlock no more often than they lock.
\<close>

lemma holds_rlock: "holds t n m \<Longrightarrow> rlock u m = Some m' \<Longrightarrow> u = t \<and> holds t (Suc n) m'"
  by (cases m) (auto split: if_splits)

lemma holds_rlock_other: "holds t n m \<Longrightarrow> u \<noteq> t \<Longrightarrow> rlock u m = None"
  by (cases m) auto

lemma holds_runlock: "holds t (Suc n) m \<Longrightarrow> runlock u m = Some m' \<Longrightarrow> holds t n m'"
  by (cases m) (auto split: if_splits nat.splits)

lemma holds_less: "holds t (Suc n) m \<Longrightarrow> holds t n m"
  by (cases m) auto

lemma mutex_teardown:
  "mutex (hooks (snd (teardown u T s)) T) =
     (case runlock u (mutex (hooks s T)) of None \<Rightarrow> mutex (hooks s T) | Some m \<Rightarrow> m)"
  by (simp add: teardown_def unlock_hook_def Let_def split: option.splits)

lemma holds_teardown:
  assumes "holds t (Suc n) (mutex (hooks s T))"
  shows "holds t n (mutex (hooks (snd (teardown u T s)) T))"
proof (cases "runlock u (mutex (hooks s T))")
  case None
  with holds_less [OF assms] show ?thesis by (simp add: mutex_teardown)
next
  case (Some m)
  with holds_runlock [OF assms Some] show ?thesis by (simp add: mutex_teardown)
qed

lemma holds_MKMOCK_WITH_ENABLED_HOOK:
  assumes snip: "\<And>s k. holds t k (mutex (hooks s T)) \<Longrightarrow> holds t k (mutex (hooks (snd (snippet s)) T))"
    and st: "holds t n (mutex (hooks st T))"
  shows "holds t n (mutex (hooks (snd (MKMOCK_WITH_ENABLED_HOOK u T0 mv snippet st)) T))"
proof (cases "rlock u (mutex (hooks st T0))")
  case None
  with st show ?thesis by (simp add: MKMOCK_WITH_ENABLED_HOOK_blocked)
next
  case (Some m)
  have deeper: "holds t (Suc n) m" if "T0 = T"
    using holds_rlock [OF st, of u m] Some that by simp
  show ?thesis
  proof (cases mv)
    case (Throws e)
    show ?thesis
    proof (cases "T0 = T")
      case True
      from Some True have own: "rlock u (mutex (hooks st T)) = Some m" by simp
      from Throws True holds_less [OF deeper [OF True]] show ?thesis
        by (simp add: MKMOCK_WITH_ENABLED_HOOK_throws [OF own])
    next
      case False
      with Throws st show ?thesis by (simp add: MKMOCK_WITH_ENABLED_HOOK_throws [OF Some])
    qed
  next
    case (Yields v)
    note start = MKMOCK_WITH_ENABLED_HOOK_yields [OF Some]
    let ?s = "st\<lparr>hooks := (hooks st)(T0 := \<lparr>enabled = True, val = v,
                 saved_value = val (hooks st T0), saved_exc = None, mutex = m\<rparr>)\<rparr>"
    obtain out st1 where run: "snippet ?s = (out, st1)" by (cases "snippet ?s")
    let ?s1 = "\<lambda>e. st1\<lparr>hooks := (hooks st1)(T0 := (hooks st1 T0)\<lparr>saved_exc := Some e\<rparr>)\<rparr>"
    show ?thesis
    proof (cases "T0 = T")
      case True
      from Some True have own: "rlock u (mutex (hooks st T)) = Some m" by simp
      note start' = MKMOCK_WITH_ENABLED_HOOK_yields [OF own]
      from deeper [OF True] True have "holds t (Suc n) (mutex (hooks ?s T))" by simp
      from snip [OF this] run have st1: "holds t (Suc n) (mutex (hooks st1 T))" by simp
      with True have st1e: "holds t (Suc n) (mutex (hooks (?s1 e) T))" for e by simp
      show ?thesis
      proof (cases out)
        case Returned
        with Yields run True holds_teardown [OF st1, of u] show ?thesis by (simp add: start')
      next
        case (Thrown e)
        with Yields run True holds_teardown [OF st1e, of u e] holds_less [OF st1] show ?thesis
          by (cases e) (simp_all add: start')
      next
        case Blocked
        with Yields run True holds_less [OF st1] show ?thesis by (simp add: start')
      next
        case Undefined
        with Yields run True holds_less [OF st1] show ?thesis by (simp add: start')
      qed
    next
      case False
      with st have "holds t n (mutex (hooks ?s T))" by simp
      from snip [OF this] run have st1: "holds t n (mutex (hooks st1 T))" by simp
      with False have st1e: "holds t n (mutex (hooks (?s1 e) T))" for e by simp
      from False have ne: "T \<noteq> T0" by simp
      show ?thesis
      proof (cases out)
        case Returned
        with Yields run st1 teardown_other [OF ne, of u st1] show ?thesis by (simp add: start)
      next
        case (Thrown e)
        with Yields run st1 st1e [of e] teardown_other [OF ne, of u "?s1 e"] show ?thesis
          by (cases e) (simp_all add: start)
      next
        case Blocked
        with Yields run st1 show ?thesis by (simp add: start)
      next
        case Undefined
        with Yields run st1 show ?thesis by (simp add: start)
      qed
    qed
  qed
qed

lemma holds_exec:
  "holds t n (mutex (hooks st T)) \<Longrightarrow> holds t n (mutex (hooks (snd (exec en u c st)) T))"
  "holds t n (mutex (hooks st T)) \<Longrightarrow> holds t n (mutex (hooks (snd (exec_block en u blk st)) T))"
proof (induction en u c st and en u blk st arbitrary: n and n rule: exec_exec_block.induct)
  case (1 en u x v st)
  then show ?case by simp
next
  case (2 en u T' x st)
  then show ?case by (simp add: hooks_MKMOCK_HOOK)
next
  case (3 en u T' x d st)
  then show ?case by (simp add: hooks_MKMOCK_HOOK_ALLOC)
next
  case (4 en u T' mv blk st)
  show ?case
    unfolding exec.simps
    by (rule holds_MKMOCK_WITH_ENABLED_HOOK) (use 4 in blast)+
next
  case (5 en u e st)
  then show ?case by simp
next
  case (6 en u st)
  then show ?case by simp
next
  case (7 en u c cs st)
  obtain out st1 where c: "exec en u c st = (out, st1)" by (cases "exec en u c st")
  from 7(1) [OF 7(3)] c have st1: "holds t n (mutex (hooks st1 T))" by simp
  show ?case
  proof (cases "out = Returned")
    case True
    with 7(2) [of out st1 n] c st1 show ?thesis by simp
  next
    case False
    with c st1 show ?thesis by (cases out) simp_all
  qed
qed

lemma holds_run:
  "holds t n (mutex (hooks st T)) \<Longrightarrow> holds t n (mutex (hooks (run en p st) T))"
proof (induction p arbitrary: st)
  case Nil
  then show ?case by simp
next
  case (Cons a p)
  obtain u c where a: "a = (u, c)" by (cases a)
  from holds_exec(1) [OF Cons.prems]
  have "holds t n (mutex (hooks (snd (exec en u c st)) T))" .
  from Cons.IH [OF this] a show ?case by simp
qed

text \<open>
  Claim C10. In \<^verbatim>\<open>src/mkmock.hpp\<close>, when the snippet throws something that is not a
  \<^verbatim>\<open>std::exception\<close>, \<^verbatim>\<open>MKMOCK_WITH_ENABLED_HOOK\<close> throws it with the mutex of the tag
  locked by the calling thread: the lock taken by the first block is never given back,
  whatever any thread runs afterwards, and every later \<^verbatim>\<open>MKMOCK_HOOK\<close>,
  \<^verbatim>\<open>MKMOCK_HOOK_ALLOC\<close> or \<^verbatim>\<open>MKMOCK_WITH_ENABLED_HOOK\<close> of another thread on that tag
  waits for it.
\<close>

theorem C10_foreign_exception_keeps_mutex_locked:
  assumes act: "activate t mv (hooks st T) = (Returned, inst)"
    and blk: "exec_block en t blk (st\<lparr>hooks := (hooks st)(T := inst)\<rparr>) = (Thrown (Foreign n), st1)"
    and other: "u \<noteq> t"
  shows "exec en t (WithEnabledHook T mv blk) st = (Thrown (Foreign n), st1)
       \<and> (\<forall>k. holds t k (mutex inst) \<longrightarrow> holds t k (mutex (hooks (run en p st1) T)))
       \<and> holds t 0 (mutex (hooks (run en p st1) T))
       \<and> MKMOCK_HOOK True u T x (run en p st1) = (Blocked, run en p st1)
       \<and> MKMOCK_HOOK_ALLOC True u T x d (run en p st1) = (Blocked, run en p st1)
       \<and> MKMOCK_WITH_ENABLED_HOOK u T w snippet (run en p st1) = (Blocked, run en p st1)"
proof -
  let ?s = "st\<lparr>hooks := (hooks st)(T := inst)\<rparr>"
  from act blk have raised: "exec en t (WithEnabledHook T mv blk) st = (Thrown (Foreign n), st1)"
    by (simp add: MKMOCK_WITH_ENABLED_HOOK_def)
  have keep: "holds t k (mutex (hooks (run en p st1) T))" if "holds t k (mutex inst)" for k
  proof -
    from that have "holds t k (mutex (hooks ?s T))" by simp
    from holds_exec(2) [OF this, of en t blk] blk have "holds t k (mutex (hooks st1 T))" by simp
    then show ?thesis by (rule holds_run)
  qed
  from activate_Returned [OF act] have "holds t 0 (mutex inst)"
    by (cases "mutex (hooks st T)") (auto split: if_splits)
  from keep [OF this] have h0: "holds t 0 (mutex (hooks (run en p st1) T))" .
  from holds_rlock_other [OF h0 other]
  have no: "rlock u (mutex (hooks (run en p st1) T)) = None" .
  from raised keep h0 MKMOCK_HOOK_blocked [OF no] MKMOCK_HOOK_ALLOC_blocked [OF no]
    MKMOCK_WITH_ENABLED_HOOK_blocked [OF no]
  show ?thesis by simp
qed

theorem C10_foreign_exception_keeps_mutex_locked_witness:
  "(1::nat) \<noteq> 0
 \<and> exec True 0 (WithEnabledHook ''retcode'' (Yields (- 1)) [Throw (Foreign 42)])
       (initial :: int bstate)
     = (Thrown (Foreign 42),
        initial\<lparr>hooks := (hooks initial)(''retcode'' :=
          \<lparr>enabled = True, val = - 1, saved_value = 0, saved_exc = None, mutex = Held 0 0\<rparr>)\<rparr>)
 \<and> holds 0 0 (mutex (hooks (run True [(0, Hook ''retcode'' ''rv'')]
       (initial\<lparr>hooks := (hooks initial)(''retcode'' :=
          \<lparr>enabled = True, val = - 1 :: int, saved_value = 0, saved_exc = None,
            mutex = Held 0 0\<rparr>)\<rparr>)) ''retcode''))
 \<and> fst (MKMOCK_HOOK True 1 ''retcode'' ''rv'' (run True [(0, Hook ''retcode'' ''rv'')]
       (initial\<lparr>hooks := (hooks initial)(''retcode'' :=
          \<lparr>enabled = True, val = - 1 :: int, saved_value = 0, saved_exc = None,
            mutex = Held 0 0\<rparr>)\<rparr>))) = Blocked
 \<and> fst (MKMOCK_WITH_ENABLED_HOOK 1 ''retcode'' (Yields 5) (exec_block True 1 [])
       (run True [(0, Hook ''retcode'' ''rv'')]
       (initial\<lparr>hooks := (hooks initial)(''retcode'' :=
          \<lparr>enabled = True, val = - 1 :: int, saved_value = 0, saved_exc = None,
            mutex = Held 0 0\<rparr>)\<rparr>))) = Blocked"
proof -
  let ?inst = "\<lparr>enabled = True, val = - 1 :: int, saved_value = 0, saved_exc = None,
                 mutex = Held 0 0\<rparr>"
  let ?s = "initial\<lparr>hooks := (hooks initial)(''retcode'' := ?inst)\<rparr>"
  have act: "activate 0 (Yields (- 1)) (hooks (initial :: int bstate) ''retcode'')
               = (Returned, ?inst)"
    by (simp add: barrier_defs)
  have blk: "exec_block True 0 [Throw (Foreign 42)] ?s = (Thrown (Foreign 42), ?s)"
    by simp
  have other: "(1::nat) \<noteq> 0" by simp
  from C10_foreign_exception_keeps_mutex_locked [OF act blk other,
      of "[(0, Hook ''retcode'' ''rv'')]" "''rv''" "''free''" "Yields 5" "exec_block True 1 []"]
  show ?thesis by simp
qed

section \<open>The two headers side by side\<close>





text \<open>
  With the macro called inside a snippet of the same tag the two headers can end with
  different values: this is the program of \<open>nested_escaping\<close>, where
  \<^verbatim>\<open>src/mkmock.hpp\<close> leaves 0 and \<^verbatim>\<open>src/unnamed/part_000\<close> leaves 1.
\<close>

lemma nested_headers_end_with_different_values:
  "nests (embed nested_escaping)
 \<and> fst (exec True 0 (embed nested_escaping) initial) = Thrown (Foreign 42)
 \<and> fst (exec' True 0 nested_escaping initial') = Thrown (Foreign 42)
 \<and> enabled (hooks (snd (exec True 0 (embed nested_escaping) initial)) ''retcode'') = False
 \<and> enabled' (hooks (snd (exec' True 0 nested_escaping initial')) ''retcode'') = False
 \<and> val (hooks (snd (exec True 0 (embed nested_escaping) initial)) ''retcode'') = 0
 \<and> val' (hooks (snd (exec' True 0 nested_escaping initial')) ''retcode'') = 1"
  by (simp add: nested_escaping_def barrier_defs fine_defs)



end
